theory Spec2Isabelle
  imports Main "HOL-Library.Multiset"
begin

section \<open>Python values and exceptions\<close>

text \<open>
  The pipeline handles documents decoded from JSON responses. Python keeps them as
  \<open>None\<close>, \<open>bool\<close>, \<open>int\<close>, \<open>str\<close>, \<open>list\<close> and \<open>dict\<close> values; a dict is kept as an
  association list whose first binding of a key is the one Python would hold. JSON
  numbers with a fraction are left out of the model.
\<close>

datatype json =
    JNull
  | JBool bool
  | JInt int
  | JStr string
  | JList "json list"
  | JDict "(string \<times> json) list"

text \<open>The exceptions that the modelled code can raise.\<close>

datatype exn =
    KeyError
  | TypeError
  | AttributeError
  | ValueError
  | IntegrityError
  | InterfaceError
  | OverflowError
  | OperationalError

text \<open>Truth value of a Python object, as tested by \<open>if x:\<close>.\<close>

fun truthy :: "json \<Rightarrow> bool" where
  "truthy JNull = False"
| "truthy (JBool b) = b"
| "truthy (JInt i) = (i \<noteq> 0)"
| "truthy (JStr s) = (s \<noteq> [])"
| "truthy (JList xs) = (xs \<noteq> [])"
| "truthy (JDict kvs) = (kvs \<noteq> [])"

text \<open>
  \<open>x[k]\<close> with a string key: a dict raises \<open>KeyError\<close> on a missing key; \<open>None\<close>,
  numbers, strings and lists raise \<open>TypeError\<close>.
\<close>

fun subscript :: "json \<Rightarrow> string \<Rightarrow> exn + json" where
  "subscript (JDict kvs) k = (case map_of kvs k of None \<Rightarrow> Inl KeyError | Some v \<Rightarrow> Inr v)"
| "subscript _ k = Inl TypeError"

text \<open>\<open>d.get(k, default)\<close> and \<open>d.get(k)\<close> on a dict.\<close>

definition dict_get :: "(string \<times> json) list \<Rightarrow> string \<Rightarrow> json \<Rightarrow> json" where
  "dict_get d k dflt = (case map_of d k of None \<Rightarrow> dflt | Some v \<Rightarrow> v)"

definition dict_get_none :: "(string \<times> json) list \<Rightarrow> string \<Rightarrow> json" where
  "dict_get_none d k = dict_get d k JNull"

section \<open>The staging record and the activity normalizer (data\_manager.py)\<close>

text \<open>
  \<open>PrimaryData\<close> of db.py. Timestamps of the store are counted in seconds of its clock;
  the text that \<open>CURRENT_TIMESTAMP\<close> renders has fixed width, so its order is the order
  of these numbers.
\<close>

record PrimaryData =
  p_id :: "nat option"
  p_username :: json
  p_source :: json
  p_json_info :: json
  p_created_at :: "nat option"

text \<open>
  \<open>DataManager.process_nodes\<close>: the loop over \<open>nodes\<close>, appending one \<open>PrimaryData\<close> per
  node whose \<open>reporter\<close> is truthy. An exception raised at a node ends the call.
\<close>

fun process_nodes :: "json list \<Rightarrow> exn + PrimaryData list" where
  "process_nodes [] = Inr []"
| "process_nodes (node # nodes) =
     (case subscript node ''reporter'' of
        Inl e \<Rightarrow> Inl e
      | Inr reporter \<Rightarrow>
          if truthy reporter then
            (case subscript reporter ''username'' of
               Inl e \<Rightarrow> Inl e
             | Inr username \<Rightarrow>
                 (case subscript node ''__typename'' of
                    Inl e \<Rightarrow> Inl e
                  | Inr source \<Rightarrow>
                      (case process_nodes nodes of
                         Inl e \<Rightarrow> Inl e
                       | Inr data \<Rightarrow>
                           Inr (\<lparr>p_id = None, p_username = username, p_source = source,
                                 p_json_info = node, p_created_at = None\<rparr> # data))))
          else process_nodes nodes)"

text \<open>
  Vocabulary for the normalizer's contract. A node carries reporter information when
  it is a document whose \<open>reporter\<close> entry is truthy. An activity node, as the search
  query returns it, is a document with a \<open>reporter\<close> entry; when that entry is truthy
  it is itself a document with a \<open>username\<close>, and the node has a \<open>__typename\<close>.
\<close>

definition carries_reporter :: "json \<Rightarrow> bool" where
  "carries_reporter node =
     (case node of
        JDict d \<Rightarrow> (case map_of d ''reporter'' of None \<Rightarrow> False | Some r \<Rightarrow> truthy r)
      | _ \<Rightarrow> False)"

definition activity_node :: "json \<Rightarrow> bool" where
  "activity_node node =
     (case node of
        JDict d \<Rightarrow>
          (case map_of d ''reporter'' of
             None \<Rightarrow> False
           | Some r \<Rightarrow>
               if truthy r then
                 (case r of
                    JDict rd \<Rightarrow> map_of rd ''username'' \<noteq> None \<and> map_of d ''__typename'' \<noteq> None
                  | _ \<Rightarrow> False)
               else True)
      | _ \<Rightarrow> False)"

definition reporter_username :: "json \<Rightarrow> json" where
  "reporter_username node =
     (case node of
        JDict d \<Rightarrow> (case dict_get_none d ''reporter'' of JDict rd \<Rightarrow> dict_get_none rd ''username'' | _ \<Rightarrow> JNull)
      | _ \<Rightarrow> JNull)"

definition type_tag :: "json \<Rightarrow> json" where
  "type_tag node = (case node of JDict d \<Rightarrow> dict_get_none d ''__typename'' | _ \<Rightarrow> JNull)"

definition record_of_node :: "json \<Rightarrow> PrimaryData" where
  "record_of_node node =
     \<lparr>p_id = None, p_username = reporter_username node, p_source = type_tag node,
      p_json_info = node, p_created_at = None\<rparr>"

section \<open>The relational store (db.py)\<close>

subsection \<open>Values held by a column\<close>

text \<open>
  SQLite storage classes that the code can produce: \<open>NULL\<close>, \<open>INTEGER\<close> and \<open>TEXT\<close>.
\<close>

datatype sqlval = SNull | SInt int | SText string

text \<open>
  Binding a Python value to a \<open>?\<close> placeholder: \<open>None\<close> is \<open>NULL\<close>, \<open>bool\<close> and \<open>int\<close> are
  \<open>INTEGER\<close> (an int outside 64 bits raises \<open>OverflowError\<close>), \<open>str\<close> is \<open>TEXT\<close>; a list
  or dict is not a supported type and the driver raises.
\<close>

fun bind_param :: "json \<Rightarrow> exn + sqlval" where
  "bind_param JNull = Inr SNull"
| "bind_param (JBool b) = Inr (SInt (if b then 1 else 0))"
| "bind_param (JInt i) =
     (if - (2 ^ 63) \<le> i \<and> i < 2 ^ 63 then Inr (SInt i) else Inl OverflowError)"
| "bind_param (JStr s) = Inr (SText s)"
| "bind_param (JList xs) = Inl InterfaceError"
| "bind_param (JDict kvs) = Inl InterfaceError"

text \<open>The parameters of a statement are bound in order; the first failure is raised.\<close>

fun bind_all :: "json list \<Rightarrow> exn + sqlval list" where
  "bind_all [] = Inr []"
| "bind_all (p # ps) =
     (case bind_param p of
        Inl e \<Rightarrow> Inl e
      | Inr v \<Rightarrow> (case bind_all ps of Inl e \<Rightarrow> Inl e | Inr vs \<Rightarrow> Inr (v # vs)))"

text \<open>Decimal text of an integer, as SQLite renders an \<open>INTEGER\<close> that is used as text.\<close>

definition digit_char :: "nat \<Rightarrow> char" where
  "digit_char n = ''0123456789'' ! (n mod 10)"

function nat_text :: "nat \<Rightarrow> string" where
  "nat_text n = (if n < 10 then [digit_char n] else nat_text (n div 10) @ [digit_char (n mod 10)])"
  by pat_completeness auto
termination
  by (relation "measure id") auto

definition int_text :: "int \<Rightarrow> string" where
  "int_text i = (if i < 0 then CHR ''-'' # nat_text (nat (- i)) else nat_text (nat i))"

text \<open>
  A column declared \<open>TEXT\<close> keeps a bound integer as its decimal text. The converse
  conversion of the numeric columns (text that reads as a number is kept as a number)
  is not modelled: text bound to such a column stays text.
\<close>

fun text_affinity :: "sqlval \<Rightarrow> sqlval" where
  "text_affinity (SInt i) = SText (int_text i)"
| "text_affinity v = v"

text \<open>\<open>column = ?\<close> in a \<open>WHERE\<close> clause: \<open>NULL\<close> equals nothing.\<close>

fun sql_eq :: "sqlval \<Rightarrow> sqlval \<Rightarrow> bool" where
  "sql_eq SNull _ = False"
| "sql_eq _ SNull = False"
| "sql_eq a b = (a = b)"

subsection \<open>Tables\<close>

text \<open>
  A row of \<open>primary_table\<close>. \<open>json_info\<close> holds the text \<open>json.dumps\<close> wrote; the model keeps
  the document that this text encodes, which is what \<open>json.loads\<close> gives back.
\<close>

record primary_row =
  pr_id :: nat
  pr_username :: sqlval
  pr_source :: sqlval
  pr_json_info :: json
  pr_created_at :: nat

text \<open>
  A row of \<open>finally_table\<close>; \<open>badges_json\<close> and \<open>public_reviews_json\<close> are serialized
  documents as above.
\<close>

record finally_row =
  c_id :: nat
  c_username :: sqlval
  c_name :: sqlval
  c_intro :: sqlval
  c_profileActivated :: sqlval
  c_profile_created_at :: sqlval
  c_location :: sqlval
  c_website :: sqlval
  c_bio :: sqlval
  c_bugcrowd_handle :: sqlval
  c_hack_the_box_handle :: sqlval
  c_github_handle :: sqlval
  c_gitlab_handle :: sqlval
  c_linkedin_handle :: sqlval
  c_twitter_handle :: sqlval
  c_cleared :: sqlval
  c_verified :: sqlval
  c_open_for_employment :: sqlval
  c_mark_as_company_on_leaderboards :: sqlval
  c_resolved_report_count :: sqlval
  c_thanks_items_total_count :: sqlval
  c_badges_json :: json
  c_public_reviews_json :: json
  c_created_at :: nat

text \<open>
  The database: both tables in rowid order, and for each the largest rowid ever handed
  out (\<open>sqlite_sequence\<close>, kept because the keys are \<open>AUTOINCREMENT\<close>).
\<close>

record db =
  primary_table :: "primary_row list"
  primary_seq :: nat
  finally_table :: "finally_row list"
  finally_seq :: nat

definition empty_db :: db where
  "empty_db = \<lparr>primary_table = [], primary_seq = 0, finally_table = [], finally_seq = 0\<rparr>"

text \<open>
  The rowid of an inserted row: one more than the largest rowid that ever existed in
  the table.
\<close>

definition next_rowid :: "nat \<Rightarrow> nat list \<Rightarrow> nat" where
  "next_rowid seq ids = Suc (fold max ids seq)"

subsection \<open>Staging store\<close>

text \<open>\<open>bound v\<close> is the value that a successfully bound parameter \<open>v\<close> carries.\<close>

definition bound :: "json \<Rightarrow> sqlval" where
  "bound v = (case bind_param v of Inl e \<Rightarrow> SNull | Inr x \<Rightarrow> x)"

text \<open>
  The row that the \<open>INSERT\<close> of \<open>add_primary_record\<close> writes: the three bound columns, the
  generated key, and the clock's value \<open>now\<close> as \<open>created_at\<close>.
\<close>

definition new_primary_row :: "nat \<Rightarrow> nat \<Rightarrow> PrimaryData \<Rightarrow> primary_row" where
  "new_primary_row record_id now data =
     \<lparr>pr_id = record_id,
      pr_username = text_affinity (bound (p_username data)),
      pr_source = text_affinity (bound (p_source data)),
      pr_json_info = p_json_info data,
      pr_created_at = now\<rparr>"

text \<open>
  \<open>add_primary_record\<close>: one \<open>INSERT\<close>, committed at once. \<open>username\<close> and \<open>source\<close> are
  \<open>TEXT NOT NULL\<close>. Every exception is logged and raised again.
\<close>

definition add_primary_record :: "nat \<Rightarrow> PrimaryData \<Rightarrow> db \<Rightarrow> exn + (nat \<times> db)" where
  "add_primary_record now data d =
     (case bind_all [p_username data, p_source data] of
        Inl e \<Rightarrow> Inl e
      | Inr vs \<Rightarrow>
          if SNull \<in> set vs then Inl IntegrityError
          else
            let record_id = next_rowid (primary_seq d) (map pr_id (primary_table d))
            in Inr (record_id,
                    d\<lparr>primary_table := primary_table d @ [new_primary_row record_id now data],
                      primary_seq := record_id\<rparr>))"

text \<open>Rebuilding a \<open>PrimaryData\<close> from a fetched row, as the three readers do.\<close>

fun column_value :: "sqlval \<Rightarrow> json" where
  "column_value SNull = JNull"
| "column_value (SInt i) = JInt i"
| "column_value (SText s) = JStr s"

definition primary_of_row :: "primary_row \<Rightarrow> PrimaryData" where
  "primary_of_row row =
     \<lparr>p_id = Some (pr_id row), p_username = column_value (pr_username row),
      p_source = column_value (pr_source row), p_json_info = pr_json_info row,
      p_created_at = Some (pr_created_at row)\<rparr>"

text \<open>
  \<open>LIMIT n\<close>: the first \<open>n\<close> rows; a negative \<open>n\<close> means no bound.
\<close>

definition sql_limit :: "int \<Rightarrow> 'a list \<Rightarrow> 'a list" where
  "sql_limit n rows = (if n < 0 then rows else take (nat n) rows)"

text \<open>
  \<open>get_all_primary_records\<close>: \<open>SELECT * FROM primary_table ORDER BY created_at DESC LIMIT n\<close>.
  SQLite leaves the order of rows with equal \<open>created_at\<close> open; the model keeps them in
  rowid order. Any exception gives the empty list.
\<close>

definition get_all_primary_records :: "db \<Rightarrow> int \<Rightarrow> PrimaryData list" where
  "get_all_primary_records d limit =
     map primary_of_row
       (sql_limit limit (sort_key (\<lambda>row. - int (pr_created_at row)) (primary_table d)))"

text \<open>\<open>get_primary_by_id\<close> and \<open>get_primary_by_username\<close>: the first matching row, if any.\<close>

definition get_primary_by_id :: "db \<Rightarrow> json \<Rightarrow> PrimaryData option" where
  "get_primary_by_id d record_id =
     (case bind_param record_id of
        Inl e \<Rightarrow> None
      | Inr v \<Rightarrow> map_option primary_of_row
                 (find (\<lambda>row. sql_eq (SInt (int (pr_id row))) v) (primary_table d)))"

definition get_primary_by_username :: "db \<Rightarrow> json \<Rightarrow> PrimaryData option" where
  "get_primary_by_username d username =
     (case bind_param username of
        Inl e \<Rightarrow> None
      | Inr v \<Rightarrow> map_option primary_of_row
                 (find (\<lambda>row. sql_eq (pr_username row) (text_affinity v)) (primary_table d)))"

text \<open>
  \<open>update_primary_record\<close>: rewrites \<open>username\<close>, \<open>source\<close> and \<open>json_info\<close> of the row with
  the given id and reports whether a row was hit. Exceptions give \<open>False\<close>.
\<close>

definition update_primary_record :: "nat \<Rightarrow> PrimaryData \<Rightarrow> db \<Rightarrow> bool \<times> db" where
  "update_primary_record record_id data d =
     (case bind_all [p_username data, p_source data] of
        Inl e \<Rightarrow> (False, d)
      | Inr vs \<Rightarrow>
          if \<not> (\<exists>row \<in> set (primary_table d). pr_id row = record_id) then (False, d)
          else if SNull \<in> set vs then (False, d)
          else
            (True,
             d\<lparr>primary_table :=
                 map (\<lambda>row. if pr_id row = record_id
                            then row\<lparr>pr_username := text_affinity (bound (p_username data)),
                                     pr_source := text_affinity (bound (p_source data)),
                                     pr_json_info := p_json_info data\<rparr>
                            else row)
                   (primary_table d)\<rparr>))"

text \<open>\<open>delete_primary_record\<close>: removes the row with the given id.\<close>

definition delete_primary_record :: "nat \<Rightarrow> db \<Rightarrow> bool \<times> db" where
  "delete_primary_record record_id d =
     ((\<exists>row \<in> set (primary_table d). pr_id row = record_id),
      d\<lparr>primary_table := filter (\<lambda>row. pr_id row \<noteq> record_id) (primary_table d)\<rparr>)"

text \<open>\<open>clear_all_data\<close>: empties both tables; the rowid counters stay.\<close>

definition clear_all_data :: "db \<Rightarrow> db" where
  "clear_all_data d = d\<lparr>finally_table := [], primary_table := []\<rparr>"

subsection \<open>Timestamps of a profile\<close>

text \<open>
  \<open>_parse_timestamp\<close> calls \<open>str.replace\<close>, \<open>datetime.fromisoformat\<close> and
  \<open>datetime.strftime\<close> of the standard library. They are modelled here from their
  documentation.
\<close>

text \<open>\<open>s.replace(old, new)\<close> for a one-character \<open>old\<close>: every occurrence is replaced.\<close>

fun str_replace :: "char \<Rightarrow> string \<Rightarrow> string \<Rightarrow> string" where
  "str_replace old new [] = []"
| "str_replace old new (c # cs) =
     (if c = old then new @ str_replace old new cs else c # str_replace old new cs)"

text \<open>A \<open>datetime\<close> object; \<open>dt_utcoffset\<close> is the offset of its zone in microseconds.\<close>

record datetime =
  dt_year :: nat
  dt_month :: nat
  dt_day :: nat
  dt_hour :: nat
  dt_minute :: nat
  dt_second :: nat
  dt_microsecond :: nat
  dt_utcoffset :: "int option"

definition digit_value :: "char \<Rightarrow> nat option" where
  "digit_value c =
     (if of_char c \<ge> (48::nat) \<and> of_char c \<le> (57::nat) then Some (of_char c - 48) else None)"

text \<open>The number written by a string of decimal digits; nothing else is accepted.\<close>

fun digits_value :: "nat \<Rightarrow> string \<Rightarrow> nat option" where
  "digits_value acc [] = Some acc"
| "digits_value acc (c # cs) =
     (case digit_value c of None \<Rightarrow> None | Some v \<Rightarrow> digits_value (10 * acc + v) cs)"

definition fixed_digits :: "nat \<Rightarrow> string \<Rightarrow> nat option" where
  "fixed_digits n s = (if length s = n \<and> n > 0 then digits_value 0 s else None)"

definition is_leap :: "nat \<Rightarrow> bool" where
  "is_leap y = (y mod 4 = 0 \<and> (y mod 100 \<noteq> 0 \<or> y mod 400 = 0))"

definition days_in_month :: "nat \<Rightarrow> nat \<Rightarrow> nat" where
  "days_in_month y m =
     (if m = 2 then (if is_leap y then 29 else 28)
      else if m = 4 \<or> m = 6 \<or> m = 9 \<or> m = 11 then 30 else 31)"

text \<open>The range checks of the \<open>datetime\<close> constructor.\<close>

definition valid_date :: "nat \<Rightarrow> nat \<Rightarrow> nat \<Rightarrow> bool" where
  "valid_date y m d =
     (1 \<le> y \<and> y \<le> 9999 \<and> 1 \<le> m \<and> m \<le> 12 \<and> 1 \<le> d \<and> d \<le> days_in_month y m)"

definition valid_time :: "nat \<Rightarrow> nat \<Rightarrow> nat \<Rightarrow> bool" where
  "valid_time h mi s = (h < 24 \<and> mi < 60 \<and> s < 60)"

text \<open>\<open>YYYY-MM-DD\<close>, exactly ten characters.\<close>

definition parse_isoformat_date :: "string \<Rightarrow> (nat \<times> nat \<times> nat) option" where
  "parse_isoformat_date s =
     (if length s \<noteq> 10 \<or> s ! 4 \<noteq> CHR ''-'' \<or> s ! 7 \<noteq> CHR ''-'' then None
      else
        (case (fixed_digits 4 (take 4 s), fixed_digits 2 (take 2 (drop 5 s)),
               fixed_digits 2 (drop 8 s)) of
           (Some y, Some m, Some d) \<Rightarrow> Some (y, m, d)
         | _ \<Rightarrow> None))"

text \<open>\<open>HH[:MM[:SS[.fff[fff]]]]\<close>, giving hour, minute, second and microsecond.\<close>

definition parse_fraction :: "string \<Rightarrow> nat option" where
  "parse_fraction f =
     (if length f = 3 then map_option (\<lambda>n. n * 1000) (fixed_digits 3 f)
      else if length f = 6 then fixed_digits 6 f
      else None)"

definition parse_hh_mm_ss_ff :: "string \<Rightarrow> (nat \<times> nat \<times> nat \<times> nat) option" where
  "parse_hh_mm_ss_ff s =
     (case fixed_digits 2 (take 2 s) of
        None \<Rightarrow> None
      | Some hh \<Rightarrow>
          if length s = 2 then Some (hh, 0, 0, 0)
          else if s ! 2 \<noteq> CHR '':'' then None
          else
            (case fixed_digits 2 (take 2 (drop 3 s)) of
               None \<Rightarrow> None
             | Some mm \<Rightarrow>
                 if length s = 5 then Some (hh, mm, 0, 0)
                 else if s ! 5 \<noteq> CHR '':'' then None
                 else
                   (case fixed_digits 2 (take 2 (drop 6 s)) of
                      None \<Rightarrow> None
                    | Some ss \<Rightarrow>
                        if length s = 8 then Some (hh, mm, ss, 0)
                        else if s ! 8 \<noteq> CHR ''.'' then None
                        else map_option (\<lambda>us. (hh, mm, ss, us)) (parse_fraction (drop 9 s)))))"

text \<open>
  The zone suffix after its sign: \<open>HH:MM\<close>, \<open>HH:MM:SS\<close> or \<open>HH:MM:SS.ffffff\<close>; the offset
  must be shorter than a day.
\<close>

definition parse_zone :: "bool \<Rightarrow> string \<Rightarrow> int option" where
  "parse_zone negative z =
     (if length z \<notin> {5, 8, 15} then None
      else
        (case parse_hh_mm_ss_ff z of
           None \<Rightarrow> None
         | Some (hh, mm, ss, us) \<Rightarrow>
             let off = ((int hh * 60 + int mm) * 60 + int ss) * 1000000 + int us
             in if off < 86400 * 1000000 then Some (if negative then - off else off)
                else None))"

text \<open>
  The time part \<open>HH[:MM[:SS[.fff[fff]]]][+HH:MM[:SS[.ffffff]]]\<close>: it is cut at its first
  \<open>+\<close> or \<open>-\<close>.
\<close>

definition is_sign :: "char \<Rightarrow> bool" where
  "is_sign c = (c = CHR ''+'' \<or> c = CHR ''-'')"

definition parse_isoformat_time ::
    "string \<Rightarrow> ((nat \<times> nat \<times> nat \<times> nat) \<times> int option) option" where
  "parse_isoformat_time t =
     (case dropWhile (\<lambda>c. \<not> is_sign c) t of
        [] \<Rightarrow> map_option (\<lambda>c. (c, None)) (parse_hh_mm_ss_ff t)
      | sign # z \<Rightarrow>
          (case (parse_hh_mm_ss_ff (takeWhile (\<lambda>c. \<not> is_sign c) t),
                 parse_zone (sign = CHR ''-'') z) of
             (Some c, Some off) \<Rightarrow> Some (c, Some off)
           | _ \<Rightarrow> None))"

text \<open>
  \<open>datetime.fromisoformat\<close> on the strings
  \<open>YYYY-MM-DD[*HH[:MM[:SS[.fff[fff]]]][+HH:MM[:SS[.ffffff]]]]\<close>, where \<open>*\<close> is any one
  character: the format the library documents since this function exists, and which
  every later version still reads. A string outside the format, or with a field out of
  range (month 13, second 60), raises \<open>ValueError\<close>.
\<close>

definition fromisoformat :: "string \<Rightarrow> exn + datetime" where
  "fromisoformat s =
     (case parse_isoformat_date (take 10 s) of
        None \<Rightarrow> Inl ValueError
      | Some (y, m, d) \<Rightarrow>
          (case (if length s = 10 then Some ((0, 0, 0, 0), None)
                 else parse_isoformat_time (drop 11 s)) of
             None \<Rightarrow> Inl ValueError
           | Some ((hh, mm, ss, us), tz) \<Rightarrow>
               if valid_date y m d \<and> valid_time hh mm ss
               then Inr \<lparr>dt_year = y, dt_month = m, dt_day = d, dt_hour = hh,
                         dt_minute = mm, dt_second = ss, dt_microsecond = us,
                         dt_utcoffset = tz\<rparr>
               else Inl ValueError))"

text \<open>
  Zero-padded decimal fields, and \<open>dt.strftime('%Y-%m-%d %H:%M:%S')\<close>. (C libraries
  differ on the padding of years below 1000; the statements below take years from 1000
  on.)
\<close>

definition pad2 :: "nat \<Rightarrow> string" where
  "pad2 n = [digit_char (n div 10 mod 10), digit_char (n mod 10)]"

definition pad4 :: "nat \<Rightarrow> string" where
  "pad4 n = [digit_char (n div 1000 mod 10), digit_char (n div 100 mod 10),
             digit_char (n div 10 mod 10), digit_char (n mod 10)]"

definition sql_text :: "nat \<Rightarrow> nat \<Rightarrow> nat \<Rightarrow> nat \<Rightarrow> nat \<Rightarrow> nat \<Rightarrow> string" where
  "sql_text y m d hh mm ss =
     pad4 y @ ''-'' @ pad2 m @ ''-'' @ pad2 d @ '' '' @ pad2 hh @ '':'' @ pad2 mm @ '':'' @ pad2 ss"

definition strftime :: "datetime \<Rightarrow> string" where
  "strftime dt =
     sql_text (dt_year dt) (dt_month dt) (dt_day dt) (dt_hour dt) (dt_minute dt) (dt_second dt)"

text \<open>
  \<open>DatabaseManager._parse_timestamp\<close>. A falsy argument gives \<open>None\<close>. Inside the \<open>try\<close>,
  a value that is no string has no \<open>replace\<close> (\<open>AttributeError\<close>) and a string that does
  not parse raises \<open>ValueError\<close>; both are caught and give \<open>None\<close>.
\<close>

definition parse_timestamp_body :: "json \<Rightarrow> exn + string" where
  "parse_timestamp_body timestamp_str =
     (case timestamp_str of
        JStr s \<Rightarrow>
          (case fromisoformat (str_replace (CHR ''Z'') ''+00:00'' s) of
             Inl e \<Rightarrow> Inl e
           | Inr dt \<Rightarrow> Inr (strftime dt))
      | _ \<Rightarrow> Inl AttributeError)"

definition parse_timestamp :: "json \<Rightarrow> string option" where
  "parse_timestamp timestamp_str =
     (if \<not> truthy timestamp_str then None
      else (case parse_timestamp_body timestamp_str of Inl e \<Rightarrow> None | Inr s \<Rightarrow> Some s))"








subsection \<open>The profile record and the profile normalizer\<close>

text \<open>
  \<open>FinallyData\<close> of db.py. Python does not enforce the annotations, so a field holds
  whatever value the raw profile had under that key.
\<close>

record FinallyData =
  f_id :: "nat option"
  f_username :: json
  f_name :: json
  f_intro :: json
  f_profileActivated :: json
  f_profile_created_at :: json
  f_location :: json
  f_website :: json
  f_bio :: json
  f_bugcrowd_handle :: json
  f_hack_the_box_handle :: json
  f_github_handle :: json
  f_gitlab_handle :: json
  f_linkedin_handle :: json
  f_twitter_handle :: json
  f_cleared :: json
  f_verified :: json
  f_open_for_employment :: json
  f_mark_as_company_on_leaderboards :: json
  f_resolved_report_count :: json
  f_thanks_items_total_count :: json
  f_badges_json :: json
  f_public_reviews_json :: json
  f_created_at :: "nat option"

text \<open>
  The two nested containers: \<open>user_data.get(key, {})\<close>, then its \<open>edges\<close> (default \<open>[]\<close>) when
  the value is a dict, and \<open>[]\<close> otherwise.
\<close>

definition edges_of :: "(string \<times> json) list \<Rightarrow> string \<Rightarrow> json" where
  "edges_of user_data key =
     (case dict_get user_data key (JDict []) of
        JDict container \<Rightarrow> dict_get container ''edges'' (JList [])
      | _ \<Rightarrow> JList [])"

text \<open>\<open>FinallyData.from_user_data\<close>; \<open>id\<close> and \<open>created_at\<close> keep their default \<open>None\<close>.\<close>

definition from_user_data :: "(string \<times> json) list \<Rightarrow> FinallyData" where
  "from_user_data user_data =
     \<lparr>f_id = None,
      f_username = dict_get user_data ''username'' (JStr []),
      f_name = dict_get_none user_data ''name'',
      f_intro = dict_get_none user_data ''intro'',
      f_profileActivated = dict_get user_data ''profileActivated'' (JBool False),
      f_profile_created_at = dict_get_none user_data ''created_at'',
      f_location = dict_get_none user_data ''location'',
      f_website = dict_get_none user_data ''website'',
      f_bio = dict_get_none user_data ''bio'',
      f_bugcrowd_handle = dict_get_none user_data ''bugcrowd_handle'',
      f_hack_the_box_handle = dict_get_none user_data ''hack_the_box_handle'',
      f_github_handle = dict_get_none user_data ''github_handle'',
      f_gitlab_handle = dict_get_none user_data ''gitlab_handle'',
      f_linkedin_handle = dict_get_none user_data ''linkedin_handle'',
      f_twitter_handle = dict_get_none user_data ''twitter_handle'',
      f_cleared = dict_get user_data ''cleared'' (JBool False),
      f_verified = dict_get user_data ''verified'' (JBool False),
      f_open_for_employment = dict_get_none user_data ''open_for_employment'',
      f_mark_as_company_on_leaderboards = dict_get user_data ''mark_as_company_on_leaderboards'' (JBool False),
      f_resolved_report_count = dict_get user_data ''resolved_report_count'' (JInt 0),
      f_thanks_items_total_count = dict_get user_data ''thanks_items_total_count'' (JInt 0),
      f_badges_json = edges_of user_data ''badges'',
      f_public_reviews_json = edges_of user_data ''public_reviews'',
      f_created_at = None\<rparr>"

text \<open>
  \<open>DataManager.process_profile\<close>: \<open>None\<close> stays \<open>None\<close>; a dict is normalized; any other
  value has no \<open>get\<close> method.
\<close>

fun process_profile :: "json \<Rightarrow> exn + FinallyData option" where
  "process_profile JNull = Inr None"
| "process_profile (JDict user_data) = Inr (Some (from_user_data user_data))"
| "process_profile _ = Inl AttributeError"

subsection \<open>Final store\<close>

definition timestamp_param :: "json \<Rightarrow> json" where
  "timestamp_param v = (case parse_timestamp v of None \<Rightarrow> JNull | Some s \<Rightarrow> JStr s)"

text \<open>
  The scalar parameters that \<open>add_finally_record\<close> and \<open>update_finally_record\<close> pass, in
  the order of the statement (\<open>to_db_dict\<close> hands the fields through; the two sequences
  go through \<open>json.dumps\<close> and are always text).
\<close>

definition scalar_params :: "FinallyData \<Rightarrow> json list" where
  "scalar_params data =
     [f_name data,
      f_intro data,
      f_profileActivated data,
      timestamp_param (f_profile_created_at data),
      f_location data,
      f_website data,
      f_bio data,
      f_bugcrowd_handle data,
      f_hack_the_box_handle data,
      f_github_handle data,
      f_gitlab_handle data,
      f_linkedin_handle data,
      f_twitter_handle data,
      f_cleared data,
      f_verified data,
      f_open_for_employment data,
      f_mark_as_company_on_leaderboards data,
      f_resolved_report_count data,
      f_thanks_items_total_count data]"

text \<open>
  The row that the \<open>INSERT\<close> of \<open>add_finally_record\<close> writes: the bound columns (the
  creation time of the profile goes through \<open>_parse_timestamp\<close>), the two serialized
  sequences, the generated key, and the clock's value \<open>now\<close> as \<open>created_at\<close>.
\<close>

definition new_finally_row :: "nat \<Rightarrow> nat \<Rightarrow> FinallyData \<Rightarrow> finally_row" where
  "new_finally_row record_id now data =
     \<lparr>c_id = record_id,
      c_username = text_affinity (bound (f_username data)),
      c_name = text_affinity (bound (f_name data)),
      c_intro = text_affinity (bound (f_intro data)),
      c_profileActivated = bound (f_profileActivated data),
      c_profile_created_at = bound (timestamp_param (f_profile_created_at data)),
      c_location = text_affinity (bound (f_location data)),
      c_website = text_affinity (bound (f_website data)),
      c_bio = text_affinity (bound (f_bio data)),
      c_bugcrowd_handle = text_affinity (bound (f_bugcrowd_handle data)),
      c_hack_the_box_handle = text_affinity (bound (f_hack_the_box_handle data)),
      c_github_handle = text_affinity (bound (f_github_handle data)),
      c_gitlab_handle = text_affinity (bound (f_gitlab_handle data)),
      c_linkedin_handle = text_affinity (bound (f_linkedin_handle data)),
      c_twitter_handle = text_affinity (bound (f_twitter_handle data)),
      c_cleared = bound (f_cleared data),
      c_verified = bound (f_verified data),
      c_open_for_employment = bound (f_open_for_employment data),
      c_mark_as_company_on_leaderboards = bound (f_mark_as_company_on_leaderboards data),
      c_resolved_report_count = bound (f_resolved_report_count data),
      c_thanks_items_total_count = bound (f_thanks_items_total_count data),
      c_badges_json = f_badges_json data,
      c_public_reviews_json = f_public_reviews_json data,
      c_created_at = now\<rparr>"

text \<open>
  \<open>add_finally_record\<close>: nothing is written for \<open>None\<close>; otherwise one \<open>INSERT\<close>, committed
  at once, whose \<open>created_at\<close> is the clock's value \<open>now\<close>. \<open>username\<close> is \<open>TEXT NOT NULL\<close>.
  The table has no uniqueness constraint on \<open>username\<close>. Every exception is raised again.
\<close>

definition add_finally_record :: "nat \<Rightarrow> FinallyData option \<Rightarrow> db \<Rightarrow> exn + (nat option \<times> db)" where
  "add_finally_record now data_opt d =
     (case data_opt of
        None \<Rightarrow> Inr (None, d)
      | Some data \<Rightarrow>
          (case bind_all (f_username data # scalar_params data) of
             Inl e \<Rightarrow> Inl e
           | Inr vs \<Rightarrow>
               if bound (f_username data) = SNull then Inl IntegrityError
               else
                 let record_id = next_rowid (finally_seq d) (map c_id (finally_table d))
                 in Inr (Some record_id,
                         d\<lparr>finally_table := finally_table d @ [new_finally_row record_id now data],
                           finally_seq := record_id\<rparr>)))"

text \<open>
  \<open>FinallyData.from_db_row\<close>, which the four readers call on each fetched row. The class
  defines no such attribute, so the call raises \<open>AttributeError\<close>.
\<close>

definition from_db_row :: "finally_row \<Rightarrow> exn + FinallyData" where
  "from_db_row row = Inl AttributeError"

text \<open>A list comprehension whose element expression can raise.\<close>

fun map_exn :: "('a \<Rightarrow> exn + 'b) \<Rightarrow> 'a list \<Rightarrow> exn + 'b list" where
  "map_exn f [] = Inr []"
| "map_exn f (x # xs) =
     (case f x of
        Inl e \<Rightarrow> Inl e
      | Inr y \<Rightarrow> (case map_exn f xs of Inl e \<Rightarrow> Inl e | Inr ys \<Rightarrow> Inr (y # ys)))"

text \<open>
  \<open>get_finally_by_username\<close> and \<open>get_finally_by_id\<close>: the \<open>try\<close> block, then the handler
  that turns every exception into \<open>None\<close>.
\<close>

definition get_finally_by_username_body :: "db \<Rightarrow> json \<Rightarrow> exn + FinallyData option" where
  "get_finally_by_username_body d username =
     (case bind_param username of
        Inl e \<Rightarrow> Inl e
      | Inr v \<Rightarrow>
          (case find (\<lambda>row. sql_eq (c_username row) (text_affinity v)) (finally_table d) of
             None \<Rightarrow> Inr None
           | Some row \<Rightarrow> (case from_db_row row of Inl e \<Rightarrow> Inl e | Inr data \<Rightarrow> Inr (Some data))))"

definition get_finally_by_username :: "db \<Rightarrow> json \<Rightarrow> FinallyData option" where
  "get_finally_by_username d username =
     (case get_finally_by_username_body d username of Inl e \<Rightarrow> None | Inr r \<Rightarrow> r)"

definition get_finally_by_id_body :: "db \<Rightarrow> json \<Rightarrow> exn + FinallyData option" where
  "get_finally_by_id_body d record_id =
     (case bind_param record_id of
        Inl e \<Rightarrow> Inl e
      | Inr v \<Rightarrow>
          (case find (\<lambda>row. sql_eq (SInt (int (c_id row))) v) (finally_table d) of
             None \<Rightarrow> Inr None
           | Some row \<Rightarrow> (case from_db_row row of Inl e \<Rightarrow> Inl e | Inr data \<Rightarrow> Inr (Some data))))"

definition get_finally_by_id :: "db \<Rightarrow> json \<Rightarrow> FinallyData option" where
  "get_finally_by_id d record_id =
     (case get_finally_by_id_body d record_id of Inl e \<Rightarrow> None | Inr r \<Rightarrow> r)"

text \<open>
  \<open>get_all_finally_records\<close>: newest first, capped, each row rebuilt; every exception
  gives the empty list.
\<close>

definition get_all_finally_records_body :: "db \<Rightarrow> int \<Rightarrow> exn + FinallyData list" where
  "get_all_finally_records_body d limit =
     map_exn from_db_row
       (sql_limit limit (sort_key (\<lambda>row. - int (c_created_at row)) (finally_table d)))"

definition get_all_finally_records :: "db \<Rightarrow> int \<Rightarrow> FinallyData list" where
  "get_all_finally_records d limit =
     (case get_all_finally_records_body d limit of Inl e \<Rightarrow> [] | Inr rs \<Rightarrow> rs)"

text \<open>
  \<open>X LIKE pattern\<close>: \<open>%\<close> stands for any run of characters, \<open>_\<close> for any one character,
  and ASCII letters match without regard to case. \<open>NULL LIKE pattern\<close> selects nothing, and
  an integer is matched as its decimal text.
\<close>

definition ascii_lower :: "char \<Rightarrow> char" where
  "ascii_lower c =
     (if (65::nat) \<le> of_char c \<and> of_char c \<le> (90::nat) then char_of (of_char c + (32::nat)) else c)"

fun like_match :: "string \<Rightarrow> string \<Rightarrow> bool" where
  "like_match [] t = (t = [])"
| "like_match (p # ps) [] = (p = CHR ''%'' \<and> like_match ps [])"
| "like_match (p # ps) (c # cs) =
     (if p = CHR ''%'' then like_match ps (c # cs) \<or> like_match (p # ps) cs
      else (p = CHR ''_'' \<or> ascii_lower p = ascii_lower c) \<and> like_match ps cs)"

fun sql_like :: "sqlval \<Rightarrow> string \<Rightarrow> bool" where
  "sql_like SNull pattern = False"
| "sql_like (SInt i) pattern = like_match pattern (int_text i)"
| "sql_like (SText s) pattern = like_match pattern s"

text \<open>The column of \<open>finally_table\<close> that a name in a \<open>WHERE\<close> clause denotes.\<close>

definition column :: "string \<Rightarrow> (finally_row \<Rightarrow> sqlval) option" where
  "column field =
     (if field = ''username'' then Some c_username
      else if field = ''name'' then Some c_name
      else if field = ''intro'' then Some c_intro
      else if field = ''profileActivated'' then Some c_profileActivated
      else if field = ''profile_created_at'' then Some c_profile_created_at
      else if field = ''location'' then Some c_location
      else if field = ''website'' then Some c_website
      else if field = ''bio'' then Some c_bio
      else if field = ''bugcrowd_handle'' then Some c_bugcrowd_handle
      else if field = ''hack_the_box_handle'' then Some c_hack_the_box_handle
      else if field = ''github_handle'' then Some c_github_handle
      else if field = ''gitlab_handle'' then Some c_gitlab_handle
      else if field = ''linkedin_handle'' then Some c_linkedin_handle
      else if field = ''twitter_handle'' then Some c_twitter_handle
      else if field = ''cleared'' then Some c_cleared
      else if field = ''verified'' then Some c_verified
      else if field = ''open_for_employment'' then Some c_open_for_employment
      else if field = ''mark_as_company_on_leaderboards'' then Some c_mark_as_company_on_leaderboards
      else if field = ''resolved_report_count'' then Some c_resolved_report_count
      else if field = ''thanks_items_total_count'' then Some c_thanks_items_total_count
      else None)"

text \<open>
  \<open>search_finally_records\<close>: the allow-list, the query
  \<open>SELECT * FROM finally_table WHERE field LIKE '%query%'\<close> (a name that is no column
  would make the statement fail), and the rebuilding of the rows; every exception gives
  the empty list.
\<close>

definition valid_fields :: "string list" where
  "valid_fields = [''username'', ''name'', ''location'', ''github_handle'']"

definition search_rows :: "db \<Rightarrow> string \<Rightarrow> string \<Rightarrow> exn + finally_row list" where
  "search_rows d search_query field =
     (let field' = (if field \<notin> set valid_fields then ''username'' else field)
      in case column field' of
           None \<Rightarrow> Inl OperationalError
         | Some col \<Rightarrow>
             Inr (filter (\<lambda>row. sql_like (col row) (''%'' @ search_query @ ''%''))
                    (finally_table d)))"

definition search_finally_records_body :: "db \<Rightarrow> string \<Rightarrow> string \<Rightarrow> exn + FinallyData list" where
  "search_finally_records_body d search_query field =
     (case search_rows d search_query field of
        Inl e \<Rightarrow> Inl e
      | Inr rows \<Rightarrow> map_exn from_db_row rows)"

definition search_finally_records :: "db \<Rightarrow> string \<Rightarrow> string \<Rightarrow> FinallyData list" where
  "search_finally_records d search_query field =
     (case search_finally_records_body d search_query field of Inl e \<Rightarrow> [] | Inr rs \<Rightarrow> rs)"

text \<open>
  \<open>update_finally_record\<close>: one \<open>UPDATE\<close> of every column except \<open>id\<close>, \<open>username\<close> and
  \<open>created_at\<close>, on all rows with the given username; it reports whether a row was hit.
  Exceptions give \<open>False\<close>.
\<close>

definition update_finally_record :: "json \<Rightarrow> FinallyData \<Rightarrow> db \<Rightarrow> bool \<times> db" where
  "update_finally_record username data d =
     (case bind_all (scalar_params data @ [username]) of
        Inl e \<Rightarrow> (False, d)
      | Inr vs \<Rightarrow>
          let hit = (\<lambda>row. sql_eq (c_username row) (text_affinity (bound username)))
          in ((\<exists>row \<in> set (finally_table d). hit row),
              d\<lparr>finally_table :=
                  map (\<lambda>row. if hit row
                             then row\<lparr>
         c_name := text_affinity (bound (f_name data)),
         c_intro := text_affinity (bound (f_intro data)),
         c_profileActivated := bound (f_profileActivated data),
         c_profile_created_at := bound (timestamp_param (f_profile_created_at data)),
         c_location := text_affinity (bound (f_location data)),
         c_website := text_affinity (bound (f_website data)),
         c_bio := text_affinity (bound (f_bio data)),
         c_bugcrowd_handle := text_affinity (bound (f_bugcrowd_handle data)),
         c_hack_the_box_handle := text_affinity (bound (f_hack_the_box_handle data)),
         c_github_handle := text_affinity (bound (f_github_handle data)),
         c_gitlab_handle := text_affinity (bound (f_gitlab_handle data)),
         c_linkedin_handle := text_affinity (bound (f_linkedin_handle data)),
         c_twitter_handle := text_affinity (bound (f_twitter_handle data)),
         c_cleared := bound (f_cleared data),
         c_verified := bound (f_verified data),
         c_open_for_employment := bound (f_open_for_employment data),
         c_mark_as_company_on_leaderboards := bound (f_mark_as_company_on_leaderboards data),
         c_resolved_report_count := bound (f_resolved_report_count data),
         c_thanks_items_total_count := bound (f_thanks_items_total_count data),
         c_badges_json := f_badges_json data,
         c_public_reviews_json := f_public_reviews_json data\<rparr>
                             else row)
                    (finally_table d)\<rparr>))"

text \<open>\<open>delete_finally_record\<close> and \<open>delete_finally_by_id\<close>.\<close>

definition delete_finally_record :: "json \<Rightarrow> db \<Rightarrow> bool \<times> db" where
  "delete_finally_record username d =
     (case bind_param username of
        Inl e \<Rightarrow> (False, d)
      | Inr v \<Rightarrow>
          let hit = (\<lambda>row. sql_eq (c_username row) (text_affinity v))
          in ((\<exists>row \<in> set (finally_table d). hit row),
              d\<lparr>finally_table := filter (\<lambda>row. \<not> hit row) (finally_table d)\<rparr>))"

definition delete_finally_by_id :: "nat \<Rightarrow> db \<Rightarrow> bool \<times> db" where
  "delete_finally_by_id record_id d =
     ((\<exists>row \<in> set (finally_table d). c_id row = record_id),
      d\<lparr>finally_table := filter (\<lambda>row. c_id row \<noteq> record_id) (finally_table d)\<rparr>)"

text \<open>
  \<open>add_or_update_finally_record\<close>: normalize the raw profile, look the username up, then
  update the existing row (returning its id, or 0 when the update reports no hit) or
  insert a new one. An argument that is no dict has no \<open>get\<close>. Every exception is raised
  again.
\<close>

definition add_or_update_finally_record :: "nat \<Rightarrow> json \<Rightarrow> db \<Rightarrow> exn + (nat option \<times> db)" where
  "add_or_update_finally_record now user_data d =
     (case user_data of
        JDict ud \<Rightarrow>
          let data = from_user_data ud
          in (case get_finally_by_username d (f_username data) of
                Some existing \<Rightarrow>
                  let data' = data\<lparr>f_id := f_id existing, f_created_at := f_created_at existing\<rparr>;
                      (updated, d') = update_finally_record (f_username data') data' d
                  in Inr (if updated then f_id existing else Some 0, d')
              | None \<Rightarrow> add_finally_record now (Some data) d)
      | _ \<Rightarrow> Inl AttributeError)"

section \<open>Stage 2 of the pipeline (main.py)\<close>

text \<open>
  \<open>profile_info_search\<close>. The transport is a parameter: \<open>fetch username\<close> is what
  \<open>graphql_post_request\<close> returns for the profile query of that username, the decoded
  response, or \<open>None\<close> (\<open>JNull\<close>) after a failed request. The loop runs over the records
  that \<open>get_all_primary_records()\<close> returned, with its default limit of 100. The result is
  the exception that ended the run, if any, and the store as the run left it: every
  insert is committed on its own.
\<close>

fun enrich :: "(json \<Rightarrow> json) \<Rightarrow> nat \<Rightarrow> PrimaryData list \<Rightarrow> db \<Rightarrow> exn option \<times> db" where
  "enrich fetch now [] d = (None, d)"
| "enrich fetch now (hunter # rest) d =
     (case subscript (fetch (p_username hunter)) ''data'' of
        Inl e \<Rightarrow> (Some e, d)
      | Inr data \<Rightarrow>
          (case subscript data ''user'' of
             Inl e \<Rightarrow> (Some e, d)
           | Inr user_data \<Rightarrow>
               (case process_profile user_data of
                  Inl e \<Rightarrow> (Some e, d)
                | Inr processed_data \<Rightarrow>
                    (case add_finally_record now processed_data d of
                       Inl e \<Rightarrow> (Some e, d)
                     | Inr (record_id, d') \<Rightarrow> enrich fetch now rest d'))))"

definition profile_info_search :: "(json \<Rightarrow> json) \<Rightarrow> nat \<Rightarrow> db \<Rightarrow> exn option \<times> db" where
  "profile_info_search fetch now d = enrich fetch now (get_all_primary_records d 100) d"

section \<open>Sample data\<close>

text \<open>Documents and stores used to run the definitions on concrete inputs.\<close>

definition report_node :: "string \<Rightarrow> json" where
  "report_node u =
     JDict [(''__typename'', JStr ''Report''), (''reporter'', JDict [(''username'', JStr u)])]"

definition redacted_node :: json where
  "redacted_node = JDict [(''__typename'', JStr ''Report''), (''reporter'', JNull)]"

definition staged_row :: "nat \<Rightarrow> string \<Rightarrow> nat \<Rightarrow> primary_row" where
  "staged_row i u t =
     \<lparr>pr_id = i, pr_username = SText u, pr_source = SText ''Report'',
      pr_json_info = report_node u, pr_created_at = t\<rparr>"

definition staging :: "primary_row list \<Rightarrow> db" where
  "staging rows =
     \<lparr>primary_table = rows, primary_seq = length rows, finally_table = [], finally_seq = 0\<rparr>"

definition profile_document :: "string \<Rightarrow> int \<Rightarrow> json" where
  "profile_document u n = JDict [(''username'', JStr u), (''resolved_report_count'', JInt n)]"

definition profile_response :: "json \<Rightarrow> json" where
  "profile_response user = JDict [(''data'', JDict [(''user'', user)])]"

text \<open>A transport that answers every profile query, and one that fails for \<open>alice\<close>.\<close>

definition transport_up :: "json \<Rightarrow> json" where
  "transport_up username =
     (case username of JStr u \<Rightarrow> profile_response (profile_document u 3) | _ \<Rightarrow> JNull)"

definition transport_alice_down :: "json \<Rightarrow> json" where
  "transport_alice_down username =
     (if username = JStr ''alice'' then JNull else transport_up username)"

text \<open>
  The store after stage 2 ran once, at time 10, over a staging table that holds \<open>bob\<close>;
  and the columns of a final row that the examples look at.
\<close>

definition enriched_bob :: db where
  "enriched_bob = snd (profile_info_search transport_up 10 (staging [staged_row 1 ''bob'' 5]))"

definition row_summary :: "finally_row \<Rightarrow> nat \<times> sqlval \<times> sqlval \<times> nat" where
  "row_summary row = (c_id row, c_username row, c_resolved_report_count row, c_created_at row)"

section \<open>Vocabulary of the statements\<close>










section \<open>Properties of the activity normalizer\<close>

lemma process_nodes_step:
  assumes "activity_node node"
  shows "process_nodes (node # nodes) =
     (case process_nodes nodes of
        Inl e \<Rightarrow> Inl e
      | Inr data \<Rightarrow> Inr (if carries_reporter node then record_of_node node # data else data))"
  using assms
  by (auto simp: activity_node_def carries_reporter_def record_of_node_def
        reporter_username_def type_tag_def dict_get_none_def dict_get_def
      split: json.splits option.splits sum.splits if_splits)

text \<open>
  C6 (as amended). For every sequence of activity nodes (documents with a \<open>reporter\<close>
  entry that is either falsy or a document with a \<open>username\<close>, the node then having a
  \<open>__typename\<close>), \<open>process_nodes\<close> returns, in input order, exactly one record for each
  node that carries reporter information: the reporter's username as identity, the type
  tag as origin and the whole node as payload. Nodes with a falsy reporter give no
  record.
\<close>

theorem process_nodes_activity:
  assumes "list_all activity_node nodes"
  shows "process_nodes nodes = Inr (map record_of_node (filter carries_reporter nodes))"
  using assms
proof (induction nodes)
  case Nil
  show ?case by simp
next
  case (Cons node nodes)
  from Cons.prems have n: "activity_node node" and ns: "list_all activity_node nodes"
    by simp_all
  from Cons.IH [OF ns] show ?case
    by (simp add: process_nodes_step [OF n] del: process_nodes.simps)
qed

theorem process_nodes_activity_witness:
  "list_all activity_node [report_node ''alice'', redacted_node, report_node ''bob'']
   \<and> process_nodes [report_node ''alice'', redacted_node, report_node ''bob''] =
       Inr [\<lparr>p_id = None, p_username = JStr ''alice'', p_source = JStr ''Report'',
             p_json_info = report_node ''alice'', p_created_at = None\<rparr>,
            \<lparr>p_id = None, p_username = JStr ''bob'', p_source = JStr ''Report'',
             p_json_info = report_node ''bob'', p_created_at = None\<rparr>]"
proof -
  have wf: "list_all activity_node [report_node ''alice'', redacted_node, report_node ''bob'']"
    by (simp add: activity_node_def report_node_def redacted_node_def)
  have "map record_of_node
          (filter carries_reporter [report_node ''alice'', redacted_node, report_node ''bob'']) =
        [\<lparr>p_id = None, p_username = JStr ''alice'', p_source = JStr ''Report'',
          p_json_info = report_node ''alice'', p_created_at = None\<rparr>,
         \<lparr>p_id = None, p_username = JStr ''bob'', p_source = JStr ''Report'',
          p_json_info = report_node ''bob'', p_created_at = None\<rparr>]"
    by (simp add: carries_reporter_def record_of_node_def reporter_username_def type_tag_def
          dict_get_none_def dict_get_def report_node_def redacted_node_def)
  with process_nodes_activity [OF wf] wf show ?thesis by simp
qed

text \<open>
  A node without a \<open>reporter\<close> entry carries no reporter information, yet it is not
  skipped: the subscript raises \<open>KeyError\<close> and the whole call fails.
\<close>

theorem process_nodes_missing_reporter_key:
  "\<not> carries_reporter (JDict [(''__typename'', JStr ''Report'')])
   \<and> process_nodes [JDict [(''__typename'', JStr ''Report'')]] = Inl KeyError"
  by (simp add: carries_reporter_def)

section \<open>Properties of the final store\<close>




text \<open>
  C1. Stage 2 writes through \<open>add_finally_record\<close>, a plain insert into a table without a
  uniqueness constraint. Running it twice over a staging table that holds \<open>bob\<close> leaves
  two final rows for \<open>bob\<close>, with keys 1 and 2: the final store does not keep one row per
  identity.
\<close>

theorem stage2_twice_duplicates_identity:
  "(let d0 = staging [staged_row 1 ''bob'' 5];
        (e1, d1) = profile_info_search transport_up 10 d0;
        (e2, d2) = profile_info_search transport_up 11 d1
    in e1 = None \<and> e2 = None
       \<and> map row_summary (finally_table d1) = [(1, SText ''bob'', SInt 3, 10)]
       \<and> map row_summary (finally_table d2) =
           [(1, SText ''bob'', SInt 3, 10), (2, SText ''bob'', SInt 3, 11)])"
  by code_simp

text \<open>
  C2. The final store holds \<open>bob\<close> under key 1, created at time 10, with 3 resolved
  reports. Upserting a profile of \<open>bob\<close> with 5 resolved reports at time 20 does not
  update that row: the lookup reports \<open>bob\<close> as absent, a second row is inserted, and the
  call returns the new key 2.
\<close>

theorem upsert_existing_identity_adds_row:
  "map row_summary (finally_table enriched_bob) = [(1, SText ''bob'', SInt 3, 10)]
   \<and> (case add_or_update_finally_record 20 (profile_document ''bob'' 5) enriched_bob of
         Inl e \<Rightarrow> False
       | Inr (key, d) \<Rightarrow>
           key = Some 2
           \<and> map row_summary (finally_table d) =
               [(1, SText ''bob'', SInt 3, 10), (2, SText ''bob'', SInt 5, 20)])"
  by code_simp

text \<open>
  C4. Each read operation of the final store turns every exception of its \<open>try\<close> block
  into its neutral result: \<open>None\<close> for the two lookups, the empty list for the listing and
  the search. In particular, when a row with the given username exists, rebuilding it
  fails and the lookup by username reports the identity as absent.
\<close>

theorem final_store_reads_swallow:
  "(get_finally_by_username_body d u = Inl e \<longrightarrow> get_finally_by_username d u = None)
   \<and> (get_finally_by_id_body d i = Inl e \<longrightarrow> get_finally_by_id d i = None)
   \<and> (get_all_finally_records_body d n = Inl e \<longrightarrow> get_all_finally_records d n = [])
   \<and> (search_finally_records_body d q field = Inl e \<longrightarrow> search_finally_records d q field = [])
   \<and> ((\<exists>row \<in> set (finally_table d). c_username row = SText s) \<longrightarrow>
         get_finally_by_username_body d (JStr s) = Inl AttributeError
         \<and> get_finally_by_username d (JStr s) = None)"
proof -
  have "get_finally_by_username_body d (JStr s) = Inl AttributeError"
    if "\<exists>row \<in> set (finally_table d). c_username row = SText s"
  proof -
    from that obtain row where "row \<in> set (finally_table d)" "c_username row = SText s"
      by blast
    then have "find (\<lambda>row. sql_eq (c_username row) (SText s)) (finally_table d) \<noteq> None"
      by (auto simp: find_None_iff)
    then show ?thesis
      by (auto simp: get_finally_by_username_body_def from_db_row_def)
  qed
  then show ?thesis
    by (simp add: get_finally_by_username_def get_finally_by_id_def
          get_all_finally_records_def search_finally_records_def)
qed

theorem final_store_reads_swallow_witness:
  "get_finally_by_username_body enriched_bob (JStr ''bob'') = Inl AttributeError
   \<and> get_finally_by_id_body enriched_bob (JInt 1) = Inl AttributeError
   \<and> get_all_finally_records_body enriched_bob 100 = Inl AttributeError
   \<and> search_finally_records_body enriched_bob ''o'' ''username'' = Inl AttributeError
   \<and> (\<exists>row \<in> set (finally_table enriched_bob). c_username row = SText ''bob'')
   \<and> get_finally_by_username enriched_bob (JStr ''bob'') = None
   \<and> get_finally_by_id enriched_bob (JInt 1) = None
   \<and> get_all_finally_records enriched_bob 100 = []
   \<and> search_finally_records enriched_bob ''o'' ''username'' = []"
proof -
  have h1: "get_finally_by_username_body enriched_bob (JStr ''bob'') = Inl AttributeError"
    by code_simp
  have h2: "get_finally_by_id_body enriched_bob (JInt 1) = Inl AttributeError"
    by code_simp
  have h3: "get_all_finally_records_body enriched_bob 100 = Inl AttributeError"
    by code_simp
  have h4: "search_finally_records_body enriched_bob ''o'' ''username'' = Inl AttributeError"
    by code_simp
  have h5: "\<exists>row \<in> set (finally_table enriched_bob). c_username row = SText ''bob''"
    by code_simp
  from final_store_reads_swallow
         [of enriched_bob "JStr ''bob''" AttributeError "JInt 1" 100 "''o''" "''username''" "''bob''"]
       h1 h2 h3 h4 h5
  show ?thesis by blast
qed



section \<open>Properties of stage 2\<close>

text \<open>
  C3. The staging table holds \<open>bob\<close> and, more recent, \<open>alice\<close>. The transport fails for
  \<open>alice\<close> (\<open>graphql_post_request\<close> returns \<open>None\<close>) and would answer for \<open>bob\<close>. Stage 2
  subscripts the missing response, which raises \<open>TypeError\<close>: the run ends with that
  exception and \<open>bob\<close> is never written.
\<close>

theorem stage2_transport_failure_aborts:
  "profile_info_search transport_alice_down 10
     (staging [staged_row 1 ''bob'' 5, staged_row 2 ''alice'' 7]) =
   (Some TypeError, staging [staged_row 1 ''bob'' 5, staged_row 2 ''alice'' 7])
   \<and> transport_alice_down (JStr ''bob'') = profile_response (profile_document ''bob'' 3)
   \<and> finally_table (staging [staged_row 1 ''bob'' 5, staged_row 2 ''alice'' 7]) = []"
  by code_simp

section \<open>Properties of the staging store and of the listing\<close>




lemma add_finally_record_primary:
  "add_finally_record now data d = Inr (r, d') \<Longrightarrow> primary_table d' = primary_table d"
  by (auto simp: add_finally_record_def Let_def split: option.splits sum.splits if_splits)

lemma enrich_primary: "primary_table (snd (enrich fetch now hunters d)) = primary_table d"
proof (induction hunters arbitrary: d)
  case Nil
  show ?case by simp
next
  case (Cons hunter rest)
  show ?case
    by (auto simp: Cons.IH dest: add_finally_record_primary split: sum.splits)
qed











lemma fold_max_ge: "s \<le> fold max ids (s::nat)"
  by (induction ids arbitrary: s) (auto intro: order_trans [OF max.cobounded2])

lemma fold_max_mem: "i \<in> set ids \<Longrightarrow> i \<le> fold max ids (s::nat)"
proof (induction ids arbitrary: s)
  case Nil
  then show ?case by simp
next
  case (Cons a ids)
  show ?case
  proof (cases "i = a")
    case True
    have "a \<le> max a s" by simp
    also have "\<dots> \<le> fold max ids (max a s)" by (rule fold_max_ge)
    finally show ?thesis using True by simp
  next
    case False
    with Cons show ?thesis by simp
  qed
qed

lemma next_rowid_fresh: "next_rowid s ids \<notin> set ids"
  using fold_max_mem [of "next_rowid s ids" ids s] by (auto simp: next_rowid_def)

lemma next_rowid_above: "s < next_rowid s ids"
  using fold_max_ge [of s ids] by (simp add: next_rowid_def)

lemma add_primary_record_result:
  assumes "add_primary_record now data d = Inr (i, d')"
  shows "i = next_rowid (primary_seq d) (map pr_id (primary_table d))
         \<and> d' = d\<lparr>primary_table := primary_table d @ [new_primary_row i now data],
                  primary_seq := i\<rparr>"
  using assms
  by (auto simp: add_primary_record_def Let_def split: sum.splits if_splits)

lemma add_primary_record_again:
  assumes "add_primary_record now data d = Inr (i, d')"
  shows "add_primary_record now' data d'' =
           Inr (next_rowid (primary_seq d'') (map pr_id (primary_table d'')),
                d''\<lparr>primary_table := primary_table d'' @
                       [new_primary_row (next_rowid (primary_seq d'') (map pr_id (primary_table d'')))
                          now' data],
                    primary_seq := next_rowid (primary_seq d'') (map pr_id (primary_table d''))\<rparr>)"
  using assms
  by (auto simp: add_primary_record_def Let_def split: sum.splits if_splits)

text \<open>
  C7 (as amended). \<open>add_primary_record\<close> is append-only and does not deduplicate: a
  successful append leaves every committed row as it was and adds one row under a key
  that no committed row has; appending the same record again succeeds and adds a second
  row under another key. Stage 2 leaves the staging table unchanged. (Committed rows
  are rewritten by \<open>update_primary_record\<close> and removed by \<open>delete_primary_record\<close> and
  \<open>clear_all_data\<close>.)
\<close>

theorem staging_append_only:
  "(add_primary_record t1 data d = Inr (i1, d1) \<longrightarrow>
      primary_table d1 = primary_table d @ [new_primary_row i1 t1 data]
      \<and> i1 \<notin> pr_id ` set (primary_table d)
      \<and> (\<exists>i2 d2. add_primary_record t2 data d1 = Inr (i2, d2)
            \<and> primary_table d2 =
                primary_table d @ [new_primary_row i1 t1 data, new_primary_row i2 t2 data]
            \<and> i2 \<noteq> i1 \<and> i2 \<notin> pr_id ` set (primary_table d)))
   \<and> primary_table (snd (profile_info_search fetch now d)) = primary_table d"
proof -
  have "primary_table d1 = primary_table d @ [new_primary_row i1 t1 data]
      \<and> i1 \<notin> pr_id ` set (primary_table d)
      \<and> (\<exists>i2 d2. add_primary_record t2 data d1 = Inr (i2, d2)
            \<and> primary_table d2 =
                primary_table d @ [new_primary_row i1 t1 data, new_primary_row i2 t2 data]
            \<and> i2 \<noteq> i1 \<and> i2 \<notin> pr_id ` set (primary_table d))"
    if a: "add_primary_record t1 data d = Inr (i1, d1)"
  proof -
    from add_primary_record_result [OF a] have
      i1: "i1 = next_rowid (primary_seq d) (map pr_id (primary_table d))" and
      d1: "d1 = d\<lparr>primary_table := primary_table d @ [new_primary_row i1 t1 data],
                  primary_seq := i1\<rparr>"
      by simp_all
    have t1: "primary_table d1 = primary_table d @ [new_primary_row i1 t1 data]"
      by (simp add: d1)
    have s1: "primary_seq d1 = i1"
      by (simp add: d1)
    have f1: "i1 \<notin> pr_id ` set (primary_table d)"
      using next_rowid_fresh [of "primary_seq d" "map pr_id (primary_table d)"] i1 by simp
    define i2 where "i2 = next_rowid (primary_seq d1) (map pr_id (primary_table d1))"
    define d2 where "d2 = d1\<lparr>primary_table := primary_table d1 @ [new_primary_row i2 t2 data],
                             primary_seq := i2\<rparr>"
    have a2: "add_primary_record t2 data d1 = Inr (i2, d2)"
      unfolding i2_def d2_def by (rule add_primary_record_again [OF a])
    have "i2 \<notin> set (map pr_id (primary_table d1))"
      unfolding i2_def by (rule next_rowid_fresh)
    then have f2: "i2 \<notin> pr_id ` set (primary_table d)" and ne: "i2 \<noteq> i1"
      by (auto simp: t1 new_primary_row_def)
    have t2: "primary_table d2 =
                primary_table d @ [new_primary_row i1 t1 data, new_primary_row i2 t2 data]"
      by (simp add: d2_def t1)
    from t1 f1 a2 t2 ne f2 show ?thesis by blast
  qed
  moreover have "primary_table (snd (profile_info_search fetch now d)) = primary_table d"
    by (simp add: profile_info_search_def enrich_primary)
  ultimately show ?thesis by blast
qed

theorem staging_append_only_witness:
  "add_primary_record 5 (record_of_node (report_node ''alice'')) empty_db =
     Inr (1, staging [staged_row 1 ''alice'' 5])
   \<and> add_primary_record 6 (record_of_node (report_node ''alice'')) (staging [staged_row 1 ''alice'' 5]) =
     Inr (2, staging [staged_row 1 ''alice'' 5, staged_row 2 ''alice'' 6])
   \<and> (\<exists>i2 d2. add_primary_record 6 (record_of_node (report_node ''alice''))
                 (staging [staged_row 1 ''alice'' 5]) = Inr (i2, d2)
          \<and> primary_table d2 =
               primary_table empty_db
                 @ [new_primary_row 1 5 (record_of_node (report_node ''alice'')),
                    new_primary_row i2 6 (record_of_node (report_node ''alice''))]
          \<and> i2 \<noteq> 1)"
proof -
  have h: "add_primary_record 5 (record_of_node (report_node ''alice'')) empty_db =
     Inr (1, staging [staged_row 1 ''alice'' 5])"
    by code_simp
  have h2: "add_primary_record 6 (record_of_node (report_node ''alice''))
              (staging [staged_row 1 ''alice'' 5]) =
     Inr (2, staging [staged_row 1 ''alice'' 5, staged_row 2 ''alice'' 6])"
    by code_simp
  from staging_append_only
         [of 5 "record_of_node (report_node ''alice'')" empty_db 1
             "staging [staged_row 1 ''alice'' 5]" 6]
       h h2
  show ?thesis by blast
qed

text \<open>
  A committed staging row is not immutable: \<open>update_primary_record\<close> rewrites the
  username, origin and payload of the row with the given key.
\<close>

theorem update_primary_record_rewrites_row:
  "update_primary_record 1 (record_of_node (report_node ''mallory'')) (staging [staged_row 1 ''alice'' 5]) =
     (True, staging [staged_row 1 ''mallory'' 5])
   \<and> staged_row 1 ''mallory'' 5 \<noteq> staged_row 1 ''alice'' 5"
  by code_simp

section \<open>Properties of the timestamp normalization\<close>

















lemma length_pad2: "length (pad2 n) = 2"
  by (simp add: pad2_def)

lemma length_pad4: "length (pad4 n) = 4"
  by (simp add: pad4_def)
















lemma parse_timestamp_no_string:
  "(\<forall>s. v \<noteq> JStr s) \<Longrightarrow> parse_timestamp v = None"
  by (cases v) (simp_all add: parse_timestamp_def parse_timestamp_body_def)








section \<open>Properties of the profile normalizer\<close>









end
